theory Spec2Isabelle
  imports Complex_Main "HOL-Library.Word"
begin

section \<open>The drive controller of cycloid (src/drive/controller.cc)\<close>

text \<open>
  The controller computes on C \<^verbatim>\<open>float\<close> and \<^verbatim>\<open>double\<close> values. The embedding
  idealises them as real numbers: \<^verbatim>\<open>+ - * /\<close>, \<^verbatim>\<open>sqrt\<close>, \<^verbatim>\<open>sin\<close>, \<^verbatim>\<open>cos\<close>
  and \<^verbatim>\<open>fabs\<close> are the exact operations of \<^typ>\<open>real\<close>, so rounding, overflow,
  infinities and NaN are outside the model. Where the C code divides by zero or takes the
  square root of a negative number it produces an infinity or a NaN, whereas HOL's total
  operations give \<open>x / 0 = 0\<close> and \<open>sqrt (- x) = - sqrt x\<close>; the theorems below whose
  content depends on such a quotient or root carry the hypothesis that it is well defined.
  The \<^verbatim>\<open>printf\<close> calls of the source are not modelled. The constructor,
  \<^verbatim>\<open>ResetState\<close>, \<^verbatim>\<open>UpdateState\<close> and \<^verbatim>\<open>Dump\<close> play no part in the properties
  below and are not embedded.
\<close>

subsection \<open>Constants\<close>

text \<open>Servo closed loop response bandwidth (measured).\<close>

definition BW_SRV :: real where
  "BW_SRV = 2 * pi * 4"

text \<open>DC motor response constants (measured) and the minimum control input (dead zone).\<close>

definition M_K1 :: real where
  "M_K1 = 2.58"

definition M_K2 :: real where
  "M_K2 = 0.093"

definition M_K3 :: real where
  "M_K3 = 0.218"

definition M_OFFSET :: real where
  "M_OFFSET = 0.103"

text \<open>Car geometry: centre of gravity to front axle length (m).\<close>

definition GEOM_LF :: real where
  "GEOM_LF = 6.5 * 0.0254"

subsection \<open>Data\<close>

text \<open>
  Modelled from the spec: the declaration of \<^verbatim>\<open>DriverConfig\<close> is in a header that is
  not part of the sources at hand. The source reads the six fields below and scales each
  by 0.01; the spec calls them percentage-style integers.
\<close>

record DriverConfig =
  speed_limit :: int
  traction_limit :: int
  steering_kpy :: int
  steering_kvy :: int
  motor_bw :: int
  yaw_bw :: int

text \<open>
  The numeric members of the class \<^verbatim>\<open>DriveController\<close>, in the order in which
  \<^verbatim>\<open>Serialize\<close> writes them. The source names them \<^verbatim>\<open>x_\<close>, \<^verbatim>\<open>y_\<close>, ...; a
  trailing underscore is not a legal name here, so each member \<^verbatim>\<open>n_\<close> is the field
  \<open>n_m\<close>.
\<close>

record DriveController =
  x_m :: real
  y_m :: real
  theta_m :: real
  vf_m :: real
  vr_m :: real
  w_m :: real
  ierr_v_m :: real
  ierr_w_m :: real
  delta_m :: real
  target_k_m :: real
  target_v_m :: real
  target_w_m :: real
  ye_m :: real
  psie_m :: real
  k_m :: real
  bw_w_m :: real
  bw_v_m :: real

text \<open>
  The member \<^verbatim>\<open>track_\<close> is used through one call only,
  \<^verbatim>\<open>track_.GetTarget(x_, y_, &cx, &cy, &nx, &ny, &k)\<close>, whose code is not part of the
  sources at hand. It is a parameter of the model: a function from the position to the
  five values \<open>(cx, cy, nx, ny, k)\<close> it stores when it returns true, and to \<open>None\<close>
  when it returns false.
\<close>

type_synonym track = "real \<Rightarrow> real \<Rightarrow> (real \<times> real \<times> real \<times> real \<times> real) option"

subsection \<open>Operations\<close>

definition clip :: "real \<Rightarrow> real \<Rightarrow> real \<Rightarrow> real" where
  "clip x mn mx = (if x < mn then mn else if x > mx then mx else x)"

text \<open>
  \<^verbatim>\<open>atan2(y, x)\<close> of the C library on real arguments: the angle of the point \<open>(x, y)\<close>
  in \<open>(- pi, pi]\<close>, and 0 at the origin.
\<close>

definition atan2 :: "real \<Rightarrow> real \<Rightarrow> real" where
  "atan2 y x =
     (if 0 < x then arctan (y / x)
      else if x < 0 then (if 0 \<le> y then arctan (y / x) + pi else arctan (y / x) - pi)
      else if 0 < y then pi / 2
      else if y < 0 then - (pi / 2)
      else 0)"

text \<open>
  \<^verbatim>\<open>TargetCurvature\<close> returns the target curvature and updates the members it logs;
  the model returns the value together with the controller after the call.
\<close>

definition TargetCurvature ::
  "track \<Rightarrow> DriverConfig \<Rightarrow> DriveController \<Rightarrow> real \<times> DriveController" where
  "TargetCurvature track config s =
     (case track (x_m s) (y_m s) of
        None \<Rightarrow> (2, s)
      | Some (cx, cy, nx, ny, k) \<Rightarrow>
          (let ye = (x_m s - cx) * nx + (y_m s - cy) * ny;
               C = cos (theta_m s);
               S = sin (theta_m s);
               Cp = - S * nx + C * ny;
               Sp = S * ny + C * nx;
               Cpy = Cp / (1 - k * ye);
               Kpy = real_of_int (steering_kpy config) * 0.01;
               Kvy = real_of_int (steering_kvy config) * 0.01;
               targetk = Cpy * (ye * Cpy * (- Kpy * Cp) + Sp * (k * Sp - Kvy * Cp) + k)
           in (targetk,
               s\<lparr>ye_m := ye, psie_m := atan2 Sp Cp, k_m := k, target_k_m := targetk\<rparr>)))"

text \<open>
  The result of \<^verbatim>\<open>GetControl\<close>: the returned \<^verbatim>\<open>bool\<close>, the two values stored
  through \<^verbatim>\<open>throttle_out\<close> and \<^verbatim>\<open>steering_out\<close>, and the controller after the call.
\<close>

record ControlResult =
  ret :: bool
  throttle_out :: real
  steering_out :: real
  ctl :: DriveController

definition GetControl ::
  "track \<Rightarrow> DriverConfig \<Rightarrow> real \<Rightarrow> real \<Rightarrow> real \<Rightarrow> bool \<Rightarrow> int \<Rightarrow> DriveController
     \<Rightarrow> ControlResult" where
  "GetControl track config throttle_in steering_in dt autodrive frameno s0 =
     (case TargetCurvature track config s0 of (autok, s) \<Rightarrow>
        if \<not> autodrive \<and> throttle_in \<le> 0 then
          \<lparr>ret = True, throttle_out = throttle_in, steering_out = - steering_in,
           ctl = s\<lparr>ierr_w_m := 0, ierr_v_m := 0\<rparr>\<rparr>
        else
          (let k = (if autodrive then autok else - steering_in * 2 * \<bar>steering_in\<bar>);
               vmax = (if autodrive then real_of_int (speed_limit config) * 0.01
                       else throttle_in * real_of_int (speed_limit config) * 0.01);
               kmin = real_of_int (traction_limit config) * 0.01 / (vmax * vmax);
               target_v =
                 (if \<bar>k\<bar> > kmin then
                    (let tv = sqrt (real_of_int (traction_limit config) * 0.01 / \<bar>k\<bar>);
                         vr_slip_target =
                           (vf_m s + w_m s * GEOM_LF * sin (delta_m s)) / cos (delta_m s)
                     in if vr_slip_target < tv \<and> vr_slip_target > 1.0
                        then vr_slip_target else tv)
                  else vmax);
               target_w = k * vr_m s;
               err_v = vr_m s - target_v;
               err_w = w_m s - target_w;
               BW_w = 2 * pi * 0.01 * real_of_int (yaw_bw config);
               steering = clip (- BW_w * (ierr_w_m s + err_w / BW_SRV)) (- 1) 1;
               BW_v = 2 * pi * 0.01 * real_of_int (motor_bw config);
               Kp = BW_v / (M_K1 - M_K2 * vr_m s);
               Ki = M_K3;
               throttle0 = clip (- Kp * (err_v + Ki * ierr_v_m s) + M_OFFSET) 0 1;
               throttle =
                 (if throttle0 = 0 \<and> vr_m s > 0 then
                    (let Kp2 = BW_v / (- M_K2 * vr_m s)
                     in clip (Kp2 * (err_v + Ki * ierr_v_m s - M_OFFSET)) (- 1) 0)
                  else throttle0);
               ierr_v' = (if throttle > - 1 \<and> throttle < 1
                          then ierr_v_m s + dt * err_v else ierr_v_m s);
               ierr_w' = (if (steering > - 1 \<and> steering < 1) \<or>
                             (err_w > 0 \<and> ierr_w_m s < 0) \<or> (err_w < 0 \<and> ierr_w_m s > 0)
                          then ierr_w_m s + dt * err_w else ierr_w_m s)
           in \<lparr>ret = True, throttle_out = throttle, steering_out = steering,
               ctl = s\<lparr>ierr_v_m := ierr_v', ierr_w_m := ierr_w', target_v_m := target_v,
                       target_w_m := target_w, bw_w_m := BW_w, bw_v_m := BW_v\<rparr>\<rparr>))"

subsection \<open>Serialization\<close>

text \<open>
  \<^verbatim>\<open>Serialize\<close> writes through the pointer \<^verbatim>\<open>buf\<close>. The memory it points to is a
  store from byte offsets (relative to \<^verbatim>\<open>buf\<close>) to bytes. The object representation of
  a \<^verbatim>\<open>float\<close>, which \<^verbatim>\<open>memcpy\<close> reads through \<^verbatim>\<open>&x_\<close>, is a parameter
  \<open>repr\<close> of the model: \<open>repr v j\<close> is byte \<open>j\<close> of the representation of \<open>v\<close>. A
  \<^verbatim>\<open>float\<close> has 4 bytes, as the source assumes when it copies 4 bytes per member and
  asserts room for 68.
\<close>

type_synonym byte = "8 word"

type_synonym buffer = "nat \<Rightarrow> byte"

definition sizeof_float :: nat where
  "sizeof_float = 4"

definition memcpy :: "buffer \<Rightarrow> nat \<Rightarrow> (nat \<Rightarrow> byte) \<Rightarrow> nat \<Rightarrow> buffer" where
  "memcpy buf off src n = (\<lambda>i. if off \<le> i \<and> i < off + n then src (i - off) else buf i)"

definition SerializedSize :: int where
  "SerializedSize = int sizeof_float * 17"

text \<open>A failed \<^verbatim>\<open>assert\<close> aborts the program (assertions are taken as enabled).\<close>

datatype abort = AssertionFailed

text \<open>
  The result is the returned \<^verbatim>\<open>int\<close> together with the memory after the call, or the
  abort of the assertion.
\<close>

definition Serialize ::
  "(real \<Rightarrow> nat \<Rightarrow> byte) \<Rightarrow> DriveController \<Rightarrow> buffer \<Rightarrow> int \<Rightarrow> abort + int \<times> buffer" where
  "Serialize repr s buf0 buflen =
     (if \<not> buflen \<ge> 68 then Inl AssertionFailed
      else
        (let buf = memcpy buf0 0 (repr (x_m s)) 4;
             buf = memcpy buf 4 (repr (y_m s)) 4;
             buf = memcpy buf 8 (repr (theta_m s)) 4;
             buf = memcpy buf 12 (repr (vf_m s)) 4;
             buf = memcpy buf 16 (repr (vr_m s)) 4;
             buf = memcpy buf 20 (repr (w_m s)) 4;
             buf = memcpy buf 24 (repr (ierr_v_m s)) 4;
             buf = memcpy buf 28 (repr (ierr_w_m s)) 4;
             buf = memcpy buf 32 (repr (delta_m s)) 4;
             buf = memcpy buf 36 (repr (target_k_m s)) 4;
             buf = memcpy buf 40 (repr (target_v_m s)) 4;
             buf = memcpy buf 44 (repr (target_w_m s)) 4;
             buf = memcpy buf 48 (repr (ye_m s)) 4;
             buf = memcpy buf 52 (repr (psie_m s)) 4;
             buf = memcpy buf 56 (repr (k_m s)) 4;
             buf = memcpy buf 60 (repr (bw_w_m s)) 4;
             buf = memcpy buf 64 (repr (bw_v_m s)) 4
         in Inr (68, buf)))"

subsection \<open>Example inputs\<close>

text \<open>The configuration of the end-to-end scenarios, and a controller at rest at the origin.\<close>

definition scenario_config :: DriverConfig where
  "scenario_config =
     \<lparr>speed_limit = 500, traction_limit = 300, steering_kpy = 100, steering_kvy = 50,
      motor_bw = 50, yaw_bw = 50\<rparr>"

definition rest_state :: DriveController where
  "rest_state =
     \<lparr>x_m = 0, y_m = 0, theta_m = 0, vf_m = 0, vr_m = 0, w_m = 0, ierr_v_m = 0,
      ierr_w_m = 0, delta_m = 0, target_k_m = 0, target_v_m = 0, target_w_m = 0, ye_m = 0,
      psie_m = 0, k_m = 0, bw_w_m = 0, bw_v_m = 0\<rparr>"

text \<open>The track oracle of a controller with no track loaded.\<close>

definition no_track :: track where
  "no_track = (\<lambda>x y. None)"

text \<open>A controller at rest whose eight logging members hold the values 11 to 18.\<close>

definition logged_state :: DriveController where
  "logged_state =
     rest_state\<lparr>target_k_m := 11, target_v_m := 12, target_w_m := 13, ye_m := 14,
                psie_m := 15, k_m := 16, bw_w_m := 17, bw_v_m := 18\<rparr>"

text \<open>
  A stand-in for the object representation in the examples: the bytes of the integer part
  of the value, least significant byte first.
\<close>

definition example_repr :: "real \<Rightarrow> nat \<Rightarrow> byte" where
  "example_repr v j = word_of_int (\<lfloor>v\<rfloor> div 256 ^ j)"

section \<open>Auxiliary facts\<close>

text \<open>\<^verbatim>\<open>TargetCurvature\<close> writes four logging members only.\<close>

lemma TargetCurvature_frame:
  "vf_m (snd (TargetCurvature track config s)) = vf_m s"
  "vr_m (snd (TargetCurvature track config s)) = vr_m s"
  "w_m (snd (TargetCurvature track config s)) = w_m s"
  "delta_m (snd (TargetCurvature track config s)) = delta_m s"
  "ierr_v_m (snd (TargetCurvature track config s)) = ierr_v_m s"
  "ierr_w_m (snd (TargetCurvature track config s)) = ierr_w_m s"
  by (simp_all add: TargetCurvature_def Let_def split: option.split prod.split)

text \<open>The six members that the active branch of \<^verbatim>\<open>GetControl\<close> assigns.\<close>

lemma logged_select:
  "ierr_v_m (s\<lparr>ierr_v_m := a, ierr_w_m := b, target_v_m := c, target_w_m := d,
               bw_w_m := e, bw_v_m := f\<rparr>) = a"
  "ierr_w_m (s\<lparr>ierr_v_m := a, ierr_w_m := b, target_v_m := c, target_w_m := d,
               bw_w_m := e, bw_v_m := f\<rparr>) = b"
  "target_v_m (s\<lparr>ierr_v_m := a, ierr_w_m := b, target_v_m := c, target_w_m := d,
               bw_w_m := e, bw_v_m := f\<rparr>) = c"
  "target_w_m (s\<lparr>ierr_v_m := a, ierr_w_m := b, target_v_m := c, target_w_m := d,
               bw_w_m := e, bw_v_m := f\<rparr>) = d"
  "bw_w_m (s\<lparr>ierr_v_m := a, ierr_w_m := b, target_v_m := c, target_w_m := d,
               bw_w_m := e, bw_v_m := f\<rparr>) = e"
  "bw_v_m (s\<lparr>ierr_v_m := a, ierr_w_m := b, target_v_m := c, target_w_m := d,
               bw_w_m := e, bw_v_m := f\<rparr>) = f"
  by simp_all

lemma logged_keep:
  "target_k_m (s\<lparr>ierr_v_m := a, ierr_w_m := b, target_v_m := c, target_w_m := d,
               bw_w_m := e, bw_v_m := f\<rparr>) = target_k_m s"
  "ye_m (s\<lparr>ierr_v_m := a, ierr_w_m := b, target_v_m := c, target_w_m := d,
               bw_w_m := e, bw_v_m := f\<rparr>) = ye_m s"
  "psie_m (s\<lparr>ierr_v_m := a, ierr_w_m := b, target_v_m := c, target_w_m := d,
               bw_w_m := e, bw_v_m := f\<rparr>) = psie_m s"
  "k_m (s\<lparr>ierr_v_m := a, ierr_w_m := b, target_v_m := c, target_w_m := d,
               bw_w_m := e, bw_v_m := f\<rparr>) = k_m s"
  by simp_all

text \<open>In active mode the test of the manual branch fails.\<close>

lemma active_mode:
  "autodrive \<or> 0 < throttle_in \<Longrightarrow> (\<not> autodrive \<and> throttle_in \<le> (0::real)) = False"
  by auto

text \<open>
  The values that the active branch of \<^verbatim>\<open>GetControl\<close> computes, one lemma for each, in
  the words of the source.
\<close>

lemma active_target_v:
  assumes "autodrive \<or> 0 < throttle_in"
  shows "target_v_m (ctl (GetControl track config throttle_in steering_in dt autodrive frameno s)) =
     (let k = (if autodrive then fst (TargetCurvature track config s)
               else - steering_in * 2 * \<bar>steering_in\<bar>);
          vmax = (if autodrive then real_of_int (speed_limit config) * 0.01
                  else throttle_in * real_of_int (speed_limit config) * 0.01);
          kmin = real_of_int (traction_limit config) * 0.01 / (vmax * vmax)
      in if \<bar>k\<bar> > kmin then
           (let tv = sqrt (real_of_int (traction_limit config) * 0.01 / \<bar>k\<bar>);
                vr_slip_target = (vf_m s + w_m s * GEOM_LF * sin (delta_m s)) / cos (delta_m s)
            in if vr_slip_target < tv \<and> vr_slip_target > 1.0 then vr_slip_target else tv)
         else vmax)"
  unfolding GetControl_def case_prod_beta active_mode [OF assms] if_False Let_def
  by (simp only: ControlResult.select_convs logged_select TargetCurvature_frame)

lemma active_target_w:
  assumes "autodrive \<or> 0 < throttle_in"
  shows "target_w_m (ctl (GetControl track config throttle_in steering_in dt autodrive frameno s)) =
     (if autodrive then fst (TargetCurvature track config s)
      else - steering_in * 2 * \<bar>steering_in\<bar>) * vr_m s"
  unfolding GetControl_def case_prod_beta active_mode [OF assms] if_False Let_def
  by (simp only: ControlResult.select_convs logged_select TargetCurvature_frame)

lemma active_steering_out:
  fixes track config throttle_in steering_in dt autodrive frameno s
  defines "r \<equiv> GetControl track config throttle_in steering_in dt autodrive frameno s"
  assumes "autodrive \<or> 0 < throttle_in"
  shows "steering_out r =
     clip (- (2 * pi * 0.01 * real_of_int (yaw_bw config)) *
             (ierr_w_m s + (w_m s - target_w_m (ctl r)) / BW_SRV)) (- 1) 1"
  unfolding r_def GetControl_def case_prod_beta active_mode [OF assms(2)] if_False Let_def
  by (simp only: ControlResult.select_convs logged_select TargetCurvature_frame)

lemma active_throttle_out:
  fixes track config throttle_in steering_in dt autodrive frameno s
  defines "r \<equiv> GetControl track config throttle_in steering_in dt autodrive frameno s"
  assumes "autodrive \<or> 0 < throttle_in"
  shows "throttle_out r =
     (let err_v = vr_m s - target_v_m (ctl r);
          BW_v = 2 * pi * 0.01 * real_of_int (motor_bw config);
          Kp = BW_v / (M_K1 - M_K2 * vr_m s);
          Ki = M_K3;
          throttle0 = clip (- Kp * (err_v + Ki * ierr_v_m s) + M_OFFSET) 0 1
      in if throttle0 = 0 \<and> vr_m s > 0 then
           (let Kp2 = BW_v / (- M_K2 * vr_m s)
            in clip (Kp2 * (err_v + Ki * ierr_v_m s - M_OFFSET)) (- 1) 0)
         else throttle0)"
  unfolding r_def GetControl_def case_prod_beta active_mode [OF assms(2)] if_False Let_def
  by (simp only: ControlResult.select_convs logged_select TargetCurvature_frame)

text \<open>\<^verbatim>\<open>GetControl\<close> leaves the four members that \<^verbatim>\<open>TargetCurvature\<close> logs alone.\<close>

lemma GetControl_curvature_log:
  fixes track config throttle_in steering_in dt autodrive frameno s
  defines "r \<equiv> GetControl track config throttle_in steering_in dt autodrive frameno s"
  shows "target_k_m (ctl r) = target_k_m (snd (TargetCurvature track config s))"
    and "ye_m (ctl r) = ye_m (snd (TargetCurvature track config s))"
    and "psie_m (ctl r) = psie_m (snd (TargetCurvature track config s))"
    and "k_m (ctl r) = k_m (snd (TargetCurvature track config s))"
proof -
  show "target_k_m (ctl r) = target_k_m (snd (TargetCurvature track config s))"
    unfolding r_def GetControl_def case_prod_beta Let_def
    by (cases "\<not> autodrive \<and> throttle_in \<le> 0")
       (simp_all only: if_True if_False ControlResult.select_convs logged_keep, simp)
  show "ye_m (ctl r) = ye_m (snd (TargetCurvature track config s))"
    unfolding r_def GetControl_def case_prod_beta Let_def
    by (cases "\<not> autodrive \<and> throttle_in \<le> 0")
       (simp_all only: if_True if_False ControlResult.select_convs logged_keep, simp)
  show "psie_m (ctl r) = psie_m (snd (TargetCurvature track config s))"
    unfolding r_def GetControl_def case_prod_beta Let_def
    by (cases "\<not> autodrive \<and> throttle_in \<le> 0")
       (simp_all only: if_True if_False ControlResult.select_convs logged_keep, simp)
  show "k_m (ctl r) = k_m (snd (TargetCurvature track config s))"
    unfolding r_def GetControl_def case_prod_beta Let_def
    by (cases "\<not> autodrive \<and> throttle_in \<le> 0")
       (simp_all only: if_True if_False ControlResult.select_convs logged_keep, simp)
qed

text \<open>A lower bound of \<open>pi\<close>, from \<open>sin (pi / 6) = 1 / 2\<close> and \<open>sin x \<le> x\<close>.\<close>

lemma pi_ge_three: "3 \<le> pi"
proof -
  have "sin (pi / 6) \<le> pi / 6"
    by (rule sin_x_le_x) simp
  then show ?thesis
    by (simp add: sin_30)
qed

text \<open>Two runs of the scenario configuration under manual full throttle.\<close>

lemma full_throttle_at_rest:
  "target_v_m (ctl (GetControl no_track scenario_config 1 0 dt False n rest_state)) = 5"
  "throttle_out (GetControl no_track scenario_config 1 0 dt False n rest_state) = 1"
proof -
  show tv: "target_v_m (ctl (GetControl no_track scenario_config 1 0 dt False n rest_state)) = 5"
    by (simp add: active_target_v scenario_config_def rest_state_def)
  have "1 \<le> pi * 5 / 258 * 100 + 103 / 1000"
    using pi_ge_two by simp
  then show "throttle_out (GetControl no_track scenario_config 1 0 dt False n rest_state) = 1"
    by (simp add: active_throttle_out tv)
       (simp add: scenario_config_def rest_state_def clip_def M_K1_def M_K2_def M_K3_def
          M_OFFSET_def)
qed

lemma cruise_below_target:
  fixes dt :: real and n :: int
  defines "r \<equiv> GetControl no_track scenario_config 1 0 dt False n (rest_state\<lparr>vr_m := 49 / 10\<rparr>)"
  shows "target_v_m (ctl r) = 5" and "0 < throttle_out r" and "throttle_out r < 1"
proof -
  show tv: "target_v_m (ctl r) = 5"
    by (simp add: r_def active_target_v scenario_config_def rest_state_def)
  have t: "throttle_out r = pi * 1000 / 21243 + 103 / 1000"
    using tv pi_ge_two pi_less_4 unfolding r_def
    by (simp add: active_throttle_out)
       (simp add: scenario_config_def rest_state_def clip_def M_K1_def M_K2_def M_K3_def
          M_OFFSET_def Let_def)
  show "0 < throttle_out r" "throttle_out r < 1"
    using pi_ge_two pi_less_4 by (simp_all add: t)
qed

section \<open>Manual coast and brake mode\<close>

text \<open>
  Claim C4. When \<^verbatim>\<open>GetControl\<close> is called with autodrive false and a throttle input
  that is at most 0, the throttle output is the throttle input, the steering output is the
  negated steering input, and both integral accumulators are 0 after the call, whatever
  they were before; the outputs depend on nothing else.
\<close>

theorem manual_coast_passthrough:
  assumes "\<not> autodrive" and "throttle_in \<le> 0"
  shows "throttle_out (GetControl track config throttle_in steering_in dt autodrive frameno s)
           = throttle_in \<and>
         steering_out (GetControl track config throttle_in steering_in dt autodrive frameno s)
           = - steering_in \<and>
         ierr_v_m (ctl (GetControl track config throttle_in steering_in dt autodrive frameno s))
           = 0 \<and>
         ierr_w_m (ctl (GetControl track config throttle_in steering_in dt autodrive frameno s))
           = 0"
  using assms by (simp add: GetControl_def split: prod.splits)

theorem manual_coast_passthrough_witness:
  "\<not> False \<and> (0::real) \<le> 0 \<and>
   throttle_out (GetControl no_track scenario_config 0 0.5 0.01 False 0
                   (rest_state\<lparr>ierr_v_m := 3, ierr_w_m := - 2\<rparr>)) = 0 \<and>
   steering_out (GetControl no_track scenario_config 0 0.5 0.01 False 0
                   (rest_state\<lparr>ierr_v_m := 3, ierr_w_m := - 2\<rparr>)) = - 0.5 \<and>
   ierr_v_m (ctl (GetControl no_track scenario_config 0 0.5 0.01 False 0
                   (rest_state\<lparr>ierr_v_m := 3, ierr_w_m := - 2\<rparr>))) = 0 \<and>
   ierr_w_m (ctl (GetControl no_track scenario_config 0 0.5 0.01 False 0
                   (rest_state\<lparr>ierr_v_m := 3, ierr_w_m := - 2\<rparr>))) = 0"
  using manual_coast_passthrough [of False 0 no_track scenario_config "0.5" "0.01" 0
      "rest_state\<lparr>ierr_v_m := 3, ierr_w_m := - 2\<rparr>"]
  by simp

section \<open>The path-tracking law\<close>

text \<open>
  Claim C1. For every configuration and every pose at which the track oracle returns a
  target \<open>(cx, cy, nx, ny, k)\<close>: if the lateral error \<open>ye\<close> is 0 and the heading error is
  0, that is \<open>Cp = 1\<close> and \<open>Sp = 0\<close>, then \<^verbatim>\<open>TargetCurvature\<close> returns exactly the
  curvature \<open>k\<close> of the path. (With \<open>ye = 0\<close> the denominator \<open>1 - k * ye\<close> is 1.)
\<close>

theorem on_path_curvature:
  assumes "track (x_m s) (y_m s) = Some (cx, cy, nx, ny, k)"
    and "(x_m s - cx) * nx + (y_m s - cy) * ny = 0"
    and "- sin (theta_m s) * nx + cos (theta_m s) * ny = 1"
    and "sin (theta_m s) * ny + cos (theta_m s) * nx = 0"
  shows "fst (TargetCurvature track config s) = k"
  using assms by (simp add: TargetCurvature_def Let_def)

text \<open>
  The car is at \<open>(3, 4)\<close> on the path and heads along it, towards \<open>+y\<close>; the normal of
  the path points to \<open>- x\<close> and its curvature is \<open>1 / 2\<close>.
\<close>

theorem on_path_curvature_witness:
  "(\<lambda>x y. Some (3, 4, - 1, 0, 1 / 2))
      (x_m (rest_state\<lparr>x_m := 3, y_m := 4, theta_m := pi / 2\<rparr>))
      (y_m (rest_state\<lparr>x_m := 3, y_m := 4, theta_m := pi / 2\<rparr>))
     = Some (3, 4, - 1, 0, 1 / 2 :: real) \<and>
   (x_m (rest_state\<lparr>x_m := 3, y_m := 4, theta_m := pi / 2\<rparr>) - 3) * (- 1) +
     (y_m (rest_state\<lparr>x_m := 3, y_m := 4, theta_m := pi / 2\<rparr>) - 4) * 0 = 0 \<and>
   - sin (theta_m (rest_state\<lparr>x_m := 3, y_m := 4, theta_m := pi / 2\<rparr>)) * (- 1) +
     cos (theta_m (rest_state\<lparr>x_m := 3, y_m := 4, theta_m := pi / 2\<rparr>)) * 0 = 1 \<and>
   sin (theta_m (rest_state\<lparr>x_m := 3, y_m := 4, theta_m := pi / 2\<rparr>)) * 0 +
     cos (theta_m (rest_state\<lparr>x_m := 3, y_m := 4, theta_m := pi / 2\<rparr>)) * (- 1) = 0 \<and>
   fst (TargetCurvature (\<lambda>x y. Some (3, 4, - 1, 0, 1 / 2)) scenario_config
          (rest_state\<lparr>x_m := 3, y_m := 4, theta_m := pi / 2\<rparr>)) = 1 / 2"
  using on_path_curvature [where track = "\<lambda>x y. Some (3, 4, - 1, 0, 1 / 2)" and
      s = "rest_state\<lparr>x_m := 3, y_m := 4, theta_m := pi / 2\<rparr>" and cx = 3 and cy = 4 and
      nx = "- 1" and ny = 0 and k = "1 / 2" and config = scenario_config]
  by simp

text \<open>
  Claim C9. Whenever the track oracle reports no target for the current position,
  \<^verbatim>\<open>TargetCurvature\<close> returns exactly 2 (and leaves the controller as it is); so under
  autodrive the selected curvature is 2 and the target yaw rate that \<^verbatim>\<open>GetControl\<close>
  computes and logs is \<open>2 * vr\<close>.
\<close>

theorem no_target_fallback:
  assumes "track (x_m s) (y_m s) = None"
  shows "TargetCurvature track config s = (2, s) \<and>
         (autodrive \<longrightarrow>
            target_w_m (ctl (GetControl track config throttle_in steering_in dt autodrive
                               frameno s)) = 2 * vr_m s)"
  using assms by (simp add: active_target_w) (simp add: TargetCurvature_def)

text \<open>
  The end-to-end scenario: the scenario configuration, no track loaded, autodrive on,
  throttle input 1 and steering input 0, at a rear wheel speed of 3.
\<close>

theorem no_target_fallback_witness:
  "no_track (x_m (rest_state\<lparr>vr_m := 3\<rparr>)) (y_m (rest_state\<lparr>vr_m := 3\<rparr>)) = None \<and>
   fst (TargetCurvature no_track scenario_config (rest_state\<lparr>vr_m := 3\<rparr>)) = 2 \<and>
   target_w_m (ctl (GetControl no_track scenario_config 1 0 (1 / 100) True 0
                      (rest_state\<lparr>vr_m := 3\<rparr>))) = 6"
  using no_target_fallback [where track = no_track and s = "rest_state\<lparr>vr_m := 3\<rparr>" and
      config = scenario_config and autodrive = True and throttle_in = 1 and steering_in = 0 and
      dt = "1 / 100" and frameno = 0]
  by (simp add: no_track_def rest_state_def)

section \<open>The traction-limited target speed\<close>

text \<open>
  Claim C2. In active mode (autodrive, or a positive throttle input), with \<open>k\<close> the selected
  curvature and \<open>vmax\<close> the selected speed ceiling: whenever
  \<open>\<bar>k\<bar> > tractionLimit * 0.01 / vmax\<^sup>2\<close> the target speed is
  \<open>sqrt (tractionLimit * 0.01 / \<bar>k\<bar>)\<close>, except that it is the slip target
  \<open>(vf + w * Lf * sin delta) / cos delta\<close> exactly when that value is strictly smaller than
  the traction-limited speed and strictly greater than 1; otherwise the target speed is
  \<open>vmax\<close>. The target speed is the value logged in \<^verbatim>\<open>target_v_\<close>. The quotient by
  \<open>vmax\<^sup>2\<close> and the square root are well defined: \<open>vmax\<close> is not 0 and the traction limit
  is not negative. (At \<open>cos delta = 0\<close> the slip target is not taken, in the source, where
  the quotient is infinite or NaN, and in the model, where it is 0.)
\<close>

theorem traction_limited_target_speed:
  fixes track config throttle_in steering_in dt autodrive frameno s
  defines "k \<equiv> (if autodrive then fst (TargetCurvature track config s)
                  else - steering_in * 2 * \<bar>steering_in\<bar>)"
    and "vmax \<equiv> (if autodrive then real_of_int (speed_limit config) * 0.01
                  else throttle_in * real_of_int (speed_limit config) * 0.01)"
    and "tlim \<equiv> real_of_int (traction_limit config) * 0.01"
    and "vr_slip_target \<equiv> (vf_m s + w_m s * GEOM_LF * sin (delta_m s)) / cos (delta_m s)"
  assumes "autodrive \<or> 0 < throttle_in" and "vmax \<noteq> 0" and "0 \<le> traction_limit config"
  shows "target_v_m (ctl (GetControl track config throttle_in steering_in dt autodrive frameno s)) =
           (if \<bar>k\<bar> > tlim / (vmax * vmax)
            then (if vr_slip_target < sqrt (tlim / \<bar>k\<bar>) \<and> vr_slip_target > 1
                  then vr_slip_target else sqrt (tlim / \<bar>k\<bar>))
            else vmax)"
  unfolding GetControl_def case_prod_beta active_mode [OF assms(5)] if_False Let_def
    k_def vmax_def tlim_def vr_slip_target_def
  apply (simp only: ControlResult.select_convs logged_select TargetCurvature_frame)
  apply simp
  done

text \<open>
  Manual driving at full throttle under the scenario configuration, so that \<open>vmax = 5\<close> and
  the threshold is \<open>3 / 25\<close>: full steering (\<open>k = - 2\<close>) at front speed 0, where the
  slip target is 0 and the traction limit applies; the same at front speed \<open>1.1\<close>, where
  the slip target applies; and steering \<open>0.1\<close> (\<open>k = - 0.02\<close>), below the threshold.
\<close>

theorem traction_limited_target_speed_witness:
  "(False \<or> (0::real) < 1) \<and>
   (if False then real_of_int (speed_limit scenario_config) * 0.01
    else 1 * real_of_int (speed_limit scenario_config) * 0.01) \<noteq> 0 \<and>
   0 \<le> traction_limit scenario_config \<and>
   target_v_m (ctl (GetControl no_track scenario_config 1 1 0.01 False 0 rest_state)) = sqrt (3 / 2) \<and>
   target_v_m (ctl (GetControl no_track scenario_config 1 1 0.01 False 0 (rest_state\<lparr>vf_m := 1.1\<rparr>))) = 1.1 \<and>
   target_v_m (ctl (GetControl no_track scenario_config 1 0.1 0.01 False 0 rest_state)) = 5"
proof -
  have sq: "(11::real) < sqrt (3 / 2) * 10"
    using real_less_rsqrt [of "11 / 10" "3 / 2"] by (simp add: power2_eq_square)
  show ?thesis
    using traction_limited_target_speed [where autodrive = False and throttle_in = 1 and
      config = scenario_config and track = no_track and s = rest_state and steering_in = 1 and
      dt = "0.01" and frameno = 0]
    traction_limited_target_speed [where autodrive = False and throttle_in = 1 and
      config = scenario_config and track = no_track and s = "rest_state\<lparr>vf_m := 1.1\<rparr>" and
      steering_in = 1 and dt = "0.01" and frameno = 0]
    traction_limited_target_speed [where autodrive = False and throttle_in = 1 and
      config = scenario_config and track = no_track and s = rest_state and steering_in = "0.1" and
      dt = "0.01" and frameno = 0]
    by (simp add: scenario_config_def rest_state_def sq)
qed

section \<open>Anti-windup\<close>

text \<open>
  Claim C6. In active mode, \<^verbatim>\<open>ierr_v_\<close> is incremented by \<open>dt * err_v\<close> exactly when the
  throttle output is strictly inside \<open>(- 1, 1)\<close>, and is left as it is otherwise; in
  particular it does not change on a tick whose throttle output is saturated at 1. Here
  \<open>err_v\<close> is the rear speed minus the target speed of the tick.
\<close>

theorem velocity_integrator_antiwindup:
  fixes track config throttle_in steering_in dt autodrive frameno s
  defines "r \<equiv> GetControl track config throttle_in steering_in dt autodrive frameno s"
  defines "err_v \<equiv> vr_m s - target_v_m (ctl r)"
  assumes "autodrive \<or> 0 < throttle_in"
  shows "ierr_v_m (ctl r) =
           (if - 1 < throttle_out r \<and> throttle_out r < 1 then ierr_v_m s + dt * err_v
            else ierr_v_m s) \<and>
         (throttle_out r = 1 \<longrightarrow> ierr_v_m (ctl r) = ierr_v_m s)"
proof -
  have "ierr_v_m (ctl r) =
           (if - 1 < throttle_out r \<and> throttle_out r < 1 then ierr_v_m s + dt * err_v
            else ierr_v_m s)"
    unfolding r_def err_v_def GetControl_def case_prod_beta active_mode [OF assms(3)]
      if_False Let_def
    by (simp only: ControlResult.select_convs logged_select TargetCurvature_frame)
  then show ?thesis by simp
qed

text \<open>
  Manual full throttle under the scenario configuration. From rest the target speed is 5,
  the velocity error is \<open>- 5\<close>, the throttle output saturates at 1 and the integrator
  stays. At rear speed \<open>4.9\<close> the throttle output is inside \<open>(0, 1)\<close> and the
  integrator moves by \<open>dt * err_v = 0.01 * (- 0.1)\<close>.
\<close>

theorem velocity_integrator_antiwindup_witness:
  "(False \<or> (0::real) < 1) \<and>
   throttle_out (GetControl no_track scenario_config 1 0 (1 / 100) False 0 rest_state) = 1 \<and>
   vr_m rest_state -
     target_v_m (ctl (GetControl no_track scenario_config 1 0 (1 / 100) False 0 rest_state))
       = - 5 \<and>
   ierr_v_m (ctl (GetControl no_track scenario_config 1 0 (1 / 100) False 0 rest_state)) =
     ierr_v_m rest_state \<and>
   throttle_out (GetControl no_track scenario_config 1 0 (1 / 100) False 0
                   (rest_state\<lparr>vr_m := 49 / 10\<rparr>)) < 1 \<and>
   ierr_v_m (ctl (GetControl no_track scenario_config 1 0 (1 / 100) False 0
                    (rest_state\<lparr>vr_m := 49 / 10\<rparr>))) = - 1 / 1000"
  using velocity_integrator_antiwindup [where autodrive = False and throttle_in = 1 and
      config = scenario_config and track = no_track and s = rest_state and steering_in = 0 and
      dt = "1 / 100" and frameno = 0]
    velocity_integrator_antiwindup [where autodrive = False and throttle_in = 1 and
      config = scenario_config and track = no_track and
      s = "rest_state\<lparr>vr_m := 49 / 10\<rparr>" and steering_in = 0 and
      dt = "1 / 100" and frameno = 0]
    cruise_below_target(2) [of "1 / 100" 0] cruise_below_target(3) [of "1 / 100" 0]
  by (simp add: full_throttle_at_rest cruise_below_target(1)) (simp add: rest_state_def)

text \<open>
  Claim C7. In active mode, \<^verbatim>\<open>ierr_w_\<close> is incremented by \<open>dt * err_w\<close> exactly when the
  steering output is strictly inside \<open>(- 1, 1)\<close>, or \<open>err_w > 0\<close> and \<open>ierr_w < 0\<close>, or
  \<open>err_w < 0\<close> and \<open>ierr_w > 0\<close>. So at saturation, for a time step that is not negative,
  the integrator moves towards zero only: a negative one does not decrease, a positive one
  does not increase, and one at zero stays there. Here \<open>err_w\<close> is the yaw rate minus the
  target yaw rate of the tick.
\<close>

theorem yaw_integrator_antiwindup:
  fixes track config throttle_in steering_in dt autodrive frameno s
  defines "r \<equiv> GetControl track config throttle_in steering_in dt autodrive frameno s"
  defines "err_w \<equiv> w_m s - target_w_m (ctl r)"
  assumes "autodrive \<or> 0 < throttle_in"
  shows "ierr_w_m (ctl r) =
           (if (- 1 < steering_out r \<and> steering_out r < 1) \<or>
               (0 < err_w \<and> ierr_w_m s < 0) \<or> (err_w < 0 \<and> 0 < ierr_w_m s)
            then ierr_w_m s + dt * err_w else ierr_w_m s) \<and>
         (0 \<le> dt \<and> \<not> (- 1 < steering_out r \<and> steering_out r < 1) \<longrightarrow>
            (ierr_w_m s < 0 \<longrightarrow> ierr_w_m s \<le> ierr_w_m (ctl r)) \<and>
            (0 < ierr_w_m s \<longrightarrow> ierr_w_m (ctl r) \<le> ierr_w_m s) \<and>
            (ierr_w_m s = 0 \<longrightarrow> ierr_w_m (ctl r) = 0))"
proof -
  have eq: "ierr_w_m (ctl r) =
           (if (- 1 < steering_out r \<and> steering_out r < 1) \<or>
               (0 < err_w \<and> ierr_w_m s < 0) \<or> (err_w < 0 \<and> 0 < ierr_w_m s)
            then ierr_w_m s + dt * err_w else ierr_w_m s)"
    unfolding r_def err_w_def GetControl_def case_prod_beta active_mode [OF assms(3)]
      if_False Let_def
    by (simp only: ControlResult.select_convs logged_select TargetCurvature_frame)
  have up: "0 \<le> dt \<Longrightarrow> 0 < err_w \<Longrightarrow> 0 \<le> dt * err_w"
    by simp
  have down: "0 \<le> dt \<Longrightarrow> err_w < 0 \<Longrightarrow> dt * err_w \<le> 0"
    by (simp add: mult_nonneg_nonpos)
  show ?thesis
    using eq up down by (auto split: if_splits)
qed

text \<open>
  Manual full throttle with the integrator at \<open>- 2\<close> and the car at rest: the steering
  output saturates at 1. At yaw rate 1 the error is positive and the integrator unwinds; at
  yaw rate \<open>- 1\<close> the error is negative and the integrator stays.
\<close>

lemma saturated_left:
  fixes dt :: real and n :: int and w0 :: real
  defines "s0 \<equiv> rest_state\<lparr>w_m := w0, ierr_w_m := - 2\<rparr>"
  defines "r \<equiv> GetControl no_track scenario_config 1 0 dt False n s0"
  assumes "\<bar>w0\<bar> \<le> 1"
  shows "target_w_m (ctl r) = 0" and "steering_out r = 1"
proof -
  show tw: "target_w_m (ctl r) = 0"
    by (simp add: r_def s0_def active_target_w rest_state_def)
  have "steering_out r =
     clip (- (2 * pi * 0.01 * real_of_int (yaw_bw scenario_config)) *
             (ierr_w_m s0 + (w_m s0 - target_w_m (ctl r)) / BW_SRV)) (- 1) 1"
    unfolding r_def by (rule active_steering_out) simp
  also have "- (2 * pi * 0.01 * real_of_int (yaw_bw scenario_config)) *
             (ierr_w_m s0 + (w_m s0 - target_w_m (ctl r)) / BW_SRV) = 2 * pi - w0 / 8"
    by (simp add: tw s0_def scenario_config_def BW_SRV_def field_simps)
  also have "clip (2 * pi - w0 / 8) (- 1) 1 = 1"
  proof -
    have "1 < 2 * pi - w0 / 8"
      using assms(3) pi_ge_two by linarith
    then show ?thesis
      by (simp add: clip_def)
  qed
  finally show "steering_out r = 1" .
qed

theorem yaw_integrator_antiwindup_witness:
  "(False \<or> (0::real) < 1) \<and> (0::real) \<le> 1 / 100 \<and>
   steering_out (GetControl no_track scenario_config 1 0 (1 / 100) False 0
                   (rest_state\<lparr>w_m := 1, ierr_w_m := - 2\<rparr>)) = 1 \<and>
   ierr_w_m (rest_state\<lparr>w_m := 1, ierr_w_m := - 2\<rparr>) < 0 \<and>
   ierr_w_m (ctl (GetControl no_track scenario_config 1 0 (1 / 100) False 0
                   (rest_state\<lparr>w_m := 1, ierr_w_m := - 2\<rparr>))) = - 199 / 100 \<and>
   steering_out (GetControl no_track scenario_config 1 0 (1 / 100) False 0
                   (rest_state\<lparr>w_m := - 1, ierr_w_m := - 2\<rparr>)) = 1 \<and>
   ierr_w_m (ctl (GetControl no_track scenario_config 1 0 (1 / 100) False 0
                   (rest_state\<lparr>w_m := - 1, ierr_w_m := - 2\<rparr>))) = - 2"
  using yaw_integrator_antiwindup [where autodrive = False and throttle_in = 1 and
      config = scenario_config and track = no_track and
      s = "rest_state\<lparr>w_m := 1, ierr_w_m := - 2\<rparr>" and steering_in = 0 and
      dt = "1 / 100" and frameno = 0]
    yaw_integrator_antiwindup [where autodrive = False and throttle_in = 1 and
      config = scenario_config and track = no_track and
      s = "rest_state\<lparr>w_m := - 1, ierr_w_m := - 2\<rparr>" and steering_in = 0 and
      dt = "1 / 100" and frameno = 0]
  by (simp add: saturated_left)

section \<open>Range of the control outputs\<close>

lemma clip_bounds: "mn \<le> mx \<Longrightarrow> mn \<le> clip x mn mx \<and> clip x mn mx \<le> mx"
  by (simp add: clip_def)






section \<open>The braking law\<close>

text \<open>
  Claim C8, as amended. In active mode, if the drive law
  \<open>clip (- Kp * (err_v + K3 * ierr_v) + Moffset) 0 1\<close> with \<open>Kp = BWv / (K1 - K2 * vr)\<close>
  yields exactly 0 and \<open>vr > 0\<close>, then \<^verbatim>\<open>GetControl\<close> switches to the braking law with
  \<open>Kp2 = BWv / (- K2 * vr)\<close>: the throttle output is
  \<open>clip (Kp2 * (err_v + K3 * ierr_v - Moffset)) (- 1) 0\<close> and lies in \<open>[- 1, 0]\<close>. It is
  strictly negative exactly when \<open>Kp2 * (err_v + K3 * ierr_v - Moffset) < 0\<close>, which for a
  positive motor bandwidth is \<open>err_v + K3 * ierr_v > Moffset\<close>; otherwise it is 0. Here
  \<open>err_v\<close> is the rear speed minus the target speed of the tick, and the denominator of
  \<open>Kp\<close> is not 0.
\<close>

theorem braking_law:
  fixes track config throttle_in steering_in dt autodrive frameno s
  defines "r \<equiv> GetControl track config throttle_in steering_in dt autodrive frameno s"
  defines "err_v \<equiv> vr_m s - target_v_m (ctl r)"
    and "BW_v \<equiv> 2 * pi * 0.01 * real_of_int (motor_bw config)"
  defines "Kp \<equiv> BW_v / (M_K1 - M_K2 * vr_m s)"
    and "Kp2 \<equiv> BW_v / (- M_K2 * vr_m s)"
  assumes "autodrive \<or> 0 < throttle_in" and "0 < vr_m s" and "M_K1 - M_K2 * vr_m s \<noteq> 0"
    and "clip (- Kp * (err_v + M_K3 * ierr_v_m s) + M_OFFSET) 0 1 = 0"
  shows "throttle_out r = clip (Kp2 * (err_v + M_K3 * ierr_v_m s - M_OFFSET)) (- 1) 0 \<and>
         - 1 \<le> throttle_out r \<and> throttle_out r \<le> 0 \<and>
         (throttle_out r < 0 \<longleftrightarrow> Kp2 * (err_v + M_K3 * ierr_v_m s - M_OFFSET) < 0) \<and>
         (0 < motor_bw config \<longrightarrow>
            (throttle_out r < 0 \<longleftrightarrow> M_OFFSET < err_v + M_K3 * ierr_v_m s))"
proof -
  have t: "throttle_out r = clip (Kp2 * (err_v + M_K3 * ierr_v_m s - M_OFFSET)) (- 1) 0"
    using assms(7,9)
    unfolding r_def active_throttle_out [OF assms(6)] Let_def err_v_def BW_v_def Kp_def Kp2_def
    by (simp only: if_True simp_thms)
  have b: "- 1 \<le> throttle_out r \<and> throttle_out r \<le> 0"
    unfolding t by (rule clip_bounds) simp
  have n: "throttle_out r < 0 \<longleftrightarrow> Kp2 * (err_v + M_K3 * ierr_v_m s - M_OFFSET) < 0"
    unfolding t by (simp add: clip_def)
  have "Kp2 < 0" if "0 < motor_bw config"
    using that assms(7) unfolding Kp2_def BW_v_def M_K2_def
    by (simp add: field_simps)
  then have "0 < motor_bw config \<longrightarrow>
      (throttle_out r < 0 \<longleftrightarrow> M_OFFSET < err_v + M_K3 * ierr_v_m s)"
    unfolding n by (auto simp add: mult_less_0_iff)
  with t b n show ?thesis
    by blast
qed

text \<open>
  Manual driving with throttle input \<open>1 / 5\<close> and centred steering under the scenario
  configuration: the target speed is 1, whatever the rear speed.
\<close>

lemma lift_off_target:
  "target_v_m (ctl (GetControl no_track scenario_config (1 / 5) 0 dt False n
                      (rest_state\<lparr>vr_m := v\<rparr>))) = 1"
  by (simp add: active_target_v scenario_config_def rest_state_def)

text \<open>At rear speed 2 the drive law yields 0 and the braking law saturates at \<open>- 1\<close>.\<close>

theorem braking_law_witness:
  "(False \<or> (0::real) < 1 / 5) \<and>
   0 < vr_m (rest_state\<lparr>vr_m := 2\<rparr>) \<and>
   M_K1 - M_K2 * vr_m (rest_state\<lparr>vr_m := 2\<rparr>) \<noteq> 0 \<and>
   clip (- (2 * pi * 0.01 * real_of_int (motor_bw scenario_config) /
             (M_K1 - M_K2 * vr_m (rest_state\<lparr>vr_m := 2\<rparr>))) *
          (vr_m (rest_state\<lparr>vr_m := 2\<rparr>) -
             target_v_m (ctl (GetControl no_track scenario_config (1 / 5) 0 (1 / 100) False 0
                                (rest_state\<lparr>vr_m := 2\<rparr>))) +
           M_K3 * ierr_v_m (rest_state\<lparr>vr_m := 2\<rparr>)) + M_OFFSET) 0 1 = 0 \<and>
   0 < motor_bw scenario_config \<and>
   throttle_out (GetControl no_track scenario_config (1 / 5) 0 (1 / 100) False 0
                   (rest_state\<lparr>vr_m := 2\<rparr>)) = - 1"
proof -
  have h1: "False \<or> (0::real) < 1 / 5"
    by simp
  have h2: "0 < vr_m (rest_state\<lparr>vr_m := 2\<rparr>)"
    by simp
  have h3: "M_K1 - M_K2 * vr_m (rest_state\<lparr>vr_m := 2\<rparr>) \<noteq> 0"
    by (simp add: M_K1_def M_K2_def)
  have h4: "clip (- (2 * pi * 0.01 * real_of_int (motor_bw scenario_config) /
             (M_K1 - M_K2 * vr_m (rest_state\<lparr>vr_m := 2\<rparr>))) *
          (vr_m (rest_state\<lparr>vr_m := 2\<rparr>) -
             target_v_m (ctl (GetControl no_track scenario_config (1 / 5) 0 (1 / 100) False 0
                                (rest_state\<lparr>vr_m := 2\<rparr>))) +
           M_K3 * ierr_v_m (rest_state\<lparr>vr_m := 2\<rparr>)) + M_OFFSET) 0 1 = 0"
    using pi_ge_two
    by (simp add: lift_off_target)
       (simp add: scenario_config_def rest_state_def M_K1_def M_K2_def M_K3_def M_OFFSET_def
          clip_def)
  have h5: "clip (2 * pi * 0.01 * real_of_int (motor_bw scenario_config) /
             (- M_K2 * vr_m (rest_state\<lparr>vr_m := 2\<rparr>)) *
          (vr_m (rest_state\<lparr>vr_m := 2\<rparr>) -
             target_v_m (ctl (GetControl no_track scenario_config (1 / 5) 0 (1 / 100) False 0
                                (rest_state\<lparr>vr_m := 2\<rparr>))) +
           M_K3 * ierr_v_m (rest_state\<lparr>vr_m := 2\<rparr>) - M_OFFSET)) (- 1) 0 = - 1"
    using pi_ge_two
    by (simp add: lift_off_target)
       (simp add: scenario_config_def rest_state_def M_K1_def M_K2_def M_K3_def M_OFFSET_def
          clip_def)
  show ?thesis
    using braking_law [where autodrive = False and throttle_in = "1 / 5" and
      config = scenario_config and track = no_track and s = "rest_state\<lparr>vr_m := 2\<rparr>" and
      steering_in = 0 and dt = "1 / 100" and frameno = 0, OF h1 h2 h3 h4] h1 h2 h3 h4 h5
    by (simp add: scenario_config_def)
qed

text \<open>
  The claim as stated fails at rear speed \<open>1.1\<close>: the velocity error is \<open>0.1\<close>, the
  drive law yields \<open>clip (0.103 - 0.1 * Kp) 0 1 = 0\<close> since \<open>Kp > 1.03\<close>, and the braking
  law yields \<open>clip (Kp2 * (0.1 - 0.103)) (- 1) 0 = 0\<close> since \<open>Kp2 < 0\<close>: the throttle
  output is 0, not strictly negative.
\<close>

theorem braking_law_counterexample:
  "(False \<or> (0::real) < 1 / 5) \<and>
   0 < vr_m (rest_state\<lparr>vr_m := 11 / 10\<rparr>) \<and>
   clip (- (2 * pi * 0.01 * real_of_int (motor_bw scenario_config) /
             (M_K1 - M_K2 * vr_m (rest_state\<lparr>vr_m := 11 / 10\<rparr>))) *
          (vr_m (rest_state\<lparr>vr_m := 11 / 10\<rparr>) - 1 +
           M_K3 * ierr_v_m (rest_state\<lparr>vr_m := 11 / 10\<rparr>)) + M_OFFSET) 0 1 = 0 \<and>
   target_v_m (ctl (GetControl no_track scenario_config (1 / 5) 0 (1 / 100) False 0
                      (rest_state\<lparr>vr_m := 11 / 10\<rparr>))) = 1 \<and>
   throttle_out (GetControl no_track scenario_config (1 / 5) 0 (1 / 100) False 0
                   (rest_state\<lparr>vr_m := 11 / 10\<rparr>)) = 0 \<and>
   \<not> throttle_out (GetControl no_track scenario_config (1 / 5) 0 (1 / 100) False 0
                     (rest_state\<lparr>vr_m := 11 / 10\<rparr>)) < 0"
proof -
  have d: "clip (- (2 * pi * 0.01 * real_of_int (motor_bw scenario_config) /
             (M_K1 - M_K2 * vr_m (rest_state\<lparr>vr_m := 11 / 10\<rparr>))) *
          (vr_m (rest_state\<lparr>vr_m := 11 / 10\<rparr>) - 1 +
           M_K3 * ierr_v_m (rest_state\<lparr>vr_m := 11 / 10\<rparr>)) + M_OFFSET) 0 1 = 0"
    using pi_ge_three
    by (simp add: scenario_config_def rest_state_def M_K1_def M_K2_def M_K3_def M_OFFSET_def
          clip_def)
  have t: "throttle_out (GetControl no_track scenario_config (1 / 5) 0 (1 / 100) False 0
                   (rest_state\<lparr>vr_m := 11 / 10\<rparr>)) = 0"
    using pi_ge_three
    by (simp add: active_throttle_out lift_off_target)
       (simp add: scenario_config_def rest_state_def M_K1_def M_K2_def M_K3_def M_OFFSET_def
          clip_def Let_def)
  show ?thesis
    using d t by (simp add: lift_off_target)
qed

section \<open>The logged members\<close>

lemma TargetCurvature_frame_log:
  "target_v_m (snd (TargetCurvature track config s)) = target_v_m s"
  "target_w_m (snd (TargetCurvature track config s)) = target_w_m s"
  "bw_w_m (snd (TargetCurvature track config s)) = bw_w_m s"
  "bw_v_m (snd (TargetCurvature track config s)) = bw_v_m s"
  by (simp_all add: TargetCurvature_def Let_def split: option.split prod.split)

lemma TargetCurvature_no_target:
  "track (x_m s) (y_m s) = None \<Longrightarrow> TargetCurvature track config s = (2, s)"
  by (simp add: TargetCurvature_def)

lemma TargetCurvature_relog:
  fixes track config s d1 d2 d3 d4 d5 d6 d7 d8
  defines "s' \<equiv> s\<lparr>target_k_m := d1, target_v_m := d2, target_w_m := d3, ye_m := d4,
                   psie_m := d5, k_m := d6, bw_w_m := d7, bw_v_m := d8\<rparr>"
  shows "fst (TargetCurvature track config s') = fst (TargetCurvature track config s)"
    and "track (x_m s) (y_m s) \<noteq> None \<Longrightarrow>
           target_k_m (snd (TargetCurvature track config s')) =
             target_k_m (snd (TargetCurvature track config s)) \<and>
           ye_m (snd (TargetCurvature track config s')) =
             ye_m (snd (TargetCurvature track config s)) \<and>
           psie_m (snd (TargetCurvature track config s')) =
             psie_m (snd (TargetCurvature track config s)) \<and>
           k_m (snd (TargetCurvature track config s')) =
             k_m (snd (TargetCurvature track config s))"
  by (auto simp add: s'_def TargetCurvature_def Let_def split: option.split prod.split)

lemma active_bw:
  assumes "autodrive \<or> 0 < throttle_in"
  shows "bw_w_m (ctl (GetControl track config throttle_in steering_in dt autodrive frameno s)) =
           2 * pi * 0.01 * real_of_int (yaw_bw config)"
    and "bw_v_m (ctl (GetControl track config throttle_in steering_in dt autodrive frameno s)) =
           2 * pi * 0.01 * real_of_int (motor_bw config)"
  unfolding GetControl_def case_prod_beta active_mode [OF assms] if_False Let_def
  by (simp_all only: ControlResult.select_convs logged_select TargetCurvature_frame)

lemma manual_log:
  fixes track config throttle_in steering_in dt autodrive frameno s
  defines "r \<equiv> GetControl track config throttle_in steering_in dt autodrive frameno s"
  assumes "\<not> autodrive" and "throttle_in \<le> 0"
  shows "target_v_m (ctl r) = target_v_m s" and "target_w_m (ctl r) = target_w_m s"
    and "bw_w_m (ctl r) = bw_w_m s" and "bw_v_m (ctl r) = bw_v_m s"
  using assms(2,3) TargetCurvature_frame_log [of track config s]
  by (simp_all add: r_def GetControl_def case_prod_beta)

text \<open>
  Claim C10, as amended. A call of \<^verbatim>\<open>GetControl\<close> in active mode overwrites
  \<^verbatim>\<open>target_v_\<close>, \<^verbatim>\<open>target_w_\<close>, \<^verbatim>\<open>bw_w_\<close> and \<^verbatim>\<open>bw_v_\<close>, and a call at
  which the track oracle returns a target overwrites \<^verbatim>\<open>target_k_\<close>, \<^verbatim>\<open>ye_\<close>,
  \<^verbatim>\<open>psie_\<close> and \<^verbatim>\<open>k_\<close>: their values after the call are the same whatever the
  eight logged members held before it. In manual coast and brake mode \<^verbatim>\<open>target_v_\<close>,
  \<^verbatim>\<open>target_w_\<close>, \<^verbatim>\<open>bw_w_\<close> and \<^verbatim>\<open>bw_v_\<close> keep their previous values, and when
  the oracle returns no target \<^verbatim>\<open>target_k_\<close>, \<^verbatim>\<open>ye_\<close>, \<^verbatim>\<open>psie_\<close> and
  \<^verbatim>\<open>k_\<close> keep theirs.
\<close>

theorem logged_members_refresh:
  fixes track config throttle_in steering_in dt autodrive frameno s d1 d2 d3 d4 d5 d6 d7 d8
  defines "s' \<equiv> s\<lparr>target_k_m := d1, target_v_m := d2, target_w_m := d3, ye_m := d4,
                   psie_m := d5, k_m := d6, bw_w_m := d7, bw_v_m := d8\<rparr>"
  defines "r \<equiv> GetControl track config throttle_in steering_in dt autodrive frameno s"
    and "r' \<equiv> GetControl track config throttle_in steering_in dt autodrive frameno s'"
  shows "(autodrive \<or> 0 < throttle_in \<longrightarrow>
            target_v_m (ctl r') = target_v_m (ctl r) \<and> target_w_m (ctl r') = target_w_m (ctl r) \<and>
            bw_w_m (ctl r') = bw_w_m (ctl r) \<and> bw_v_m (ctl r') = bw_v_m (ctl r)) \<and>
         (track (x_m s) (y_m s) \<noteq> None \<longrightarrow>
            target_k_m (ctl r') = target_k_m (ctl r) \<and> ye_m (ctl r') = ye_m (ctl r) \<and>
            psie_m (ctl r') = psie_m (ctl r) \<and> k_m (ctl r') = k_m (ctl r)) \<and>
         (\<not> autodrive \<and> throttle_in \<le> 0 \<longrightarrow>
            target_v_m (ctl r) = target_v_m s \<and> target_w_m (ctl r) = target_w_m s \<and>
            bw_w_m (ctl r) = bw_w_m s \<and> bw_v_m (ctl r) = bw_v_m s) \<and>
         (track (x_m s) (y_m s) = None \<longrightarrow>
            target_k_m (ctl r) = target_k_m s \<and> ye_m (ctl r) = ye_m s \<and>
            psie_m (ctl r) = psie_m s \<and> k_m (ctl r) = k_m s)"
proof -
  have k: "fst (TargetCurvature track config s') = fst (TargetCurvature track config s)"
    unfolding s'_def by (rule TargetCurvature_relog(1))
  have fr: "vf_m s' = vf_m s" "vr_m s' = vr_m s" "w_m s' = w_m s" "delta_m s' = delta_m s"
    by (simp_all add: s'_def)
  have a: "target_v_m (ctl r') = target_v_m (ctl r) \<and> target_w_m (ctl r') = target_w_m (ctl r) \<and>
           bw_w_m (ctl r') = bw_w_m (ctl r) \<and> bw_v_m (ctl r') = bw_v_m (ctl r)"
    if "autodrive \<or> 0 < throttle_in"
    unfolding r_def r'_def active_target_v [OF that] active_target_w [OF that]
      active_bw [OF that] k fr
    by simp
  have b: "target_k_m (ctl r') = target_k_m (ctl r) \<and> ye_m (ctl r') = ye_m (ctl r) \<and>
           psie_m (ctl r') = psie_m (ctl r) \<and> k_m (ctl r') = k_m (ctl r)"
    if "track (x_m s) (y_m s) \<noteq> None"
    unfolding r_def r'_def GetControl_curvature_log s'_def
    using that by (rule TargetCurvature_relog(2) [where track = track and s = s])
  have c: "target_v_m (ctl r) = target_v_m s \<and> target_w_m (ctl r) = target_w_m s \<and>
           bw_w_m (ctl r) = bw_w_m s \<and> bw_v_m (ctl r) = bw_v_m s"
    if "\<not> autodrive \<and> throttle_in \<le> 0"
    using that unfolding r_def by (simp add: manual_log)
  have d: "target_k_m (ctl r) = target_k_m s \<and> ye_m (ctl r) = ye_m s \<and>
           psie_m (ctl r) = psie_m s \<and> k_m (ctl r) = k_m s"
    if "track (x_m s) (y_m s) = None"
    unfolding r_def GetControl_curvature_log
    using that by (simp add: TargetCurvature_no_target)
  from a b c d show ?thesis
    by blast
qed

text \<open>
  Autodrive with a track target, from the state at rest and from the same state with the
  logged members set to 11 to 18; and manual coasting with no track loaded.
\<close>

theorem logged_members_refresh_witness:
  "(True \<or> (0::real) < 1) \<and>
   (\<lambda>x y. Some (3, 4, - 1, 0, 1 / 2)) (x_m rest_state) (y_m rest_state) \<noteq> None \<and>
   target_v_m (ctl (GetControl (\<lambda>x y. Some (3, 4, - 1, 0, 1 / 2)) scenario_config 1 0 (1 / 100) True 0 logged_state)) =
     target_v_m (ctl (GetControl (\<lambda>x y. Some (3, 4, - 1, 0, 1 / 2)) scenario_config 1 0 (1 / 100) True 0 rest_state)) \<and>
   target_w_m (ctl (GetControl (\<lambda>x y. Some (3, 4, - 1, 0, 1 / 2)) scenario_config 1 0 (1 / 100) True 0 logged_state)) =
     target_w_m (ctl (GetControl (\<lambda>x y. Some (3, 4, - 1, 0, 1 / 2)) scenario_config 1 0 (1 / 100) True 0 rest_state)) \<and>
   bw_w_m (ctl (GetControl (\<lambda>x y. Some (3, 4, - 1, 0, 1 / 2)) scenario_config 1 0 (1 / 100) True 0 logged_state)) =
     bw_w_m (ctl (GetControl (\<lambda>x y. Some (3, 4, - 1, 0, 1 / 2)) scenario_config 1 0 (1 / 100) True 0 rest_state)) \<and>
   bw_v_m (ctl (GetControl (\<lambda>x y. Some (3, 4, - 1, 0, 1 / 2)) scenario_config 1 0 (1 / 100) True 0 logged_state)) =
     bw_v_m (ctl (GetControl (\<lambda>x y. Some (3, 4, - 1, 0, 1 / 2)) scenario_config 1 0 (1 / 100) True 0 rest_state)) \<and>
   target_k_m (ctl (GetControl (\<lambda>x y. Some (3, 4, - 1, 0, 1 / 2)) scenario_config 1 0 (1 / 100) True 0 logged_state)) =
     target_k_m (ctl (GetControl (\<lambda>x y. Some (3, 4, - 1, 0, 1 / 2)) scenario_config 1 0 (1 / 100) True 0 rest_state)) \<and>
   ye_m (ctl (GetControl (\<lambda>x y. Some (3, 4, - 1, 0, 1 / 2)) scenario_config 1 0 (1 / 100) True 0 logged_state)) =
     ye_m (ctl (GetControl (\<lambda>x y. Some (3, 4, - 1, 0, 1 / 2)) scenario_config 1 0 (1 / 100) True 0 rest_state)) \<and>
   psie_m (ctl (GetControl (\<lambda>x y. Some (3, 4, - 1, 0, 1 / 2)) scenario_config 1 0 (1 / 100) True 0 logged_state)) =
     psie_m (ctl (GetControl (\<lambda>x y. Some (3, 4, - 1, 0, 1 / 2)) scenario_config 1 0 (1 / 100) True 0 rest_state)) \<and>
   k_m (ctl (GetControl (\<lambda>x y. Some (3, 4, - 1, 0, 1 / 2)) scenario_config 1 0 (1 / 100) True 0 logged_state)) =
     k_m (ctl (GetControl (\<lambda>x y. Some (3, 4, - 1, 0, 1 / 2)) scenario_config 1 0 (1 / 100) True 0 rest_state)) \<and>
   (\<not> False \<and> (0::real) \<le> 0) \<and>
   no_track (x_m logged_state) (y_m logged_state) = None \<and>
   target_v_m (ctl (GetControl no_track scenario_config 0 (1 / 2) (1 / 100) False 0 logged_state)) =
     target_v_m logged_state \<and>
   target_w_m (ctl (GetControl no_track scenario_config 0 (1 / 2) (1 / 100) False 0 logged_state)) =
     target_w_m logged_state \<and>
   bw_w_m (ctl (GetControl no_track scenario_config 0 (1 / 2) (1 / 100) False 0 logged_state)) =
     bw_w_m logged_state \<and>
   bw_v_m (ctl (GetControl no_track scenario_config 0 (1 / 2) (1 / 100) False 0 logged_state)) =
     bw_v_m logged_state \<and>
   target_k_m (ctl (GetControl no_track scenario_config 0 (1 / 2) (1 / 100) False 0 logged_state)) =
     target_k_m logged_state \<and>
   ye_m (ctl (GetControl no_track scenario_config 0 (1 / 2) (1 / 100) False 0 logged_state)) =
     ye_m logged_state \<and>
   psie_m (ctl (GetControl no_track scenario_config 0 (1 / 2) (1 / 100) False 0 logged_state)) =
     psie_m logged_state \<and>
   k_m (ctl (GetControl no_track scenario_config 0 (1 / 2) (1 / 100) False 0 logged_state)) =
     k_m logged_state"
  unfolding logged_state_def
  using logged_members_refresh [where autodrive = True and throttle_in = 1 and
      track = "\<lambda>x y. Some (3, 4, - 1, 0, 1 / 2)" and config = scenario_config and s = rest_state and steering_in = 0 and
      dt = "1 / 100" and frameno = 0 and ?d1.0 = 11 and ?d2.0 = 12 and ?d3.0 = 13 and
      ?d4.0 = 14 and ?d5.0 = 15 and ?d6.0 = 16 and ?d7.0 = 17 and ?d8.0 = 18]
    logged_members_refresh [where autodrive = False and throttle_in = 0 and
      track = no_track and config = scenario_config and
      s = "rest_state\<lparr>target_k_m := 11, target_v_m := 12, target_w_m := 13, ye_m := 14,
                psie_m := 15, k_m := 16, bw_w_m := 17, bw_v_m := 18\<rparr>" and
      steering_in = "1 / 2" and dt = "1 / 100" and frameno = 0]
  by (simp add: no_track_def)

text \<open>
  The claim as stated, for every mode and every oracle outcome, fails in manual coast and
  brake mode with no track loaded: each of the eight logged members still holds the value it
  had before the call.
\<close>

theorem logged_members_refresh_counterexample:
  "target_k_m (ctl (GetControl no_track scenario_config 0 (1 / 2) (1 / 100) False 0 logged_state))
     = 11 \<and>
   target_v_m (ctl (GetControl no_track scenario_config 0 (1 / 2) (1 / 100) False 0 logged_state))
     = 12 \<and>
   target_w_m (ctl (GetControl no_track scenario_config 0 (1 / 2) (1 / 100) False 0 logged_state))
     = 13 \<and>
   ye_m (ctl (GetControl no_track scenario_config 0 (1 / 2) (1 / 100) False 0 logged_state))
     = 14 \<and>
   psie_m (ctl (GetControl no_track scenario_config 0 (1 / 2) (1 / 100) False 0 logged_state))
     = 15 \<and>
   k_m (ctl (GetControl no_track scenario_config 0 (1 / 2) (1 / 100) False 0 logged_state))
     = 16 \<and>
   bw_w_m (ctl (GetControl no_track scenario_config 0 (1 / 2) (1 / 100) False 0 logged_state))
     = 17 \<and>
   bw_v_m (ctl (GetControl no_track scenario_config 0 (1 / 2) (1 / 100) False 0 logged_state))
     = 18 \<and>
   target_k_m logged_state = 11 \<and> target_v_m logged_state = 12 \<and>
   target_w_m logged_state = 13 \<and> ye_m logged_state = 14 \<and> psie_m logged_state = 15 \<and>
   k_m logged_state = 16 \<and> bw_w_m logged_state = 17 \<and> bw_v_m logged_state = 18"
  by (simp add: GetControl_def TargetCurvature_def no_track_def logged_state_def)

section \<open>The serialized record\<close>

text \<open>
  Claim C3. \<^verbatim>\<open>SerializedSize\<close> returns exactly 68. \<^verbatim>\<open>Serialize\<close> fails its assertion
  when the capacity is below 68; otherwise it returns 68 and has written the 4-byte
  representations of the 17 members, with no padding, at the offsets 0, 4, ..., 64 in the
  order x, y, theta, vf, vr, w, ierr_v, ierr_w, delta, target_k, target_v, target_w, ye,
  psie, k, bw_w, bw_v: byte \<open>j\<close> of each member is at its offset plus \<open>j\<close>. The bytes from
  offset 68 on are as before.
\<close>

theorem serialize_layout:
  "SerializedSize = 68 \<and>
   (buflen < 68 \<longrightarrow> Serialize repr s buf buflen = Inl AssertionFailed) \<and>
   (68 \<le> buflen \<longrightarrow>
      (\<exists>buf'. Serialize repr s buf buflen = Inr (68, buf') \<and>
         (\<forall>j<4.
            buf' j = repr (x_m s) j \<and>
            buf' (4 + j) = repr (y_m s) j \<and>
            buf' (8 + j) = repr (theta_m s) j \<and>
            buf' (12 + j) = repr (vf_m s) j \<and>
            buf' (16 + j) = repr (vr_m s) j \<and>
            buf' (20 + j) = repr (w_m s) j \<and>
            buf' (24 + j) = repr (ierr_v_m s) j \<and>
            buf' (28 + j) = repr (ierr_w_m s) j \<and>
            buf' (32 + j) = repr (delta_m s) j \<and>
            buf' (36 + j) = repr (target_k_m s) j \<and>
            buf' (40 + j) = repr (target_v_m s) j \<and>
            buf' (44 + j) = repr (target_w_m s) j \<and>
            buf' (48 + j) = repr (ye_m s) j \<and>
            buf' (52 + j) = repr (psie_m s) j \<and>
            buf' (56 + j) = repr (k_m s) j \<and>
            buf' (60 + j) = repr (bw_w_m s) j \<and>
            buf' (64 + j) = repr (bw_v_m s) j) \<and>
         (\<forall>i\<ge>68. buf' i = buf i)))"
proof -
  have size: "SerializedSize = 68"
    by (simp add: SerializedSize_def sizeof_float_def)
  have small: "Serialize repr s buf buflen = Inl AssertionFailed" if "buflen < 68"
    using that by (simp add: Serialize_def)
  have big: "\<exists>buf'. Serialize repr s buf buflen = Inr (68, buf') \<and>
         (\<forall>j<4.
            buf' j = repr (x_m s) j \<and>
            buf' (4 + j) = repr (y_m s) j \<and>
            buf' (8 + j) = repr (theta_m s) j \<and>
            buf' (12 + j) = repr (vf_m s) j \<and>
            buf' (16 + j) = repr (vr_m s) j \<and>
            buf' (20 + j) = repr (w_m s) j \<and>
            buf' (24 + j) = repr (ierr_v_m s) j \<and>
            buf' (28 + j) = repr (ierr_w_m s) j \<and>
            buf' (32 + j) = repr (delta_m s) j \<and>
            buf' (36 + j) = repr (target_k_m s) j \<and>
            buf' (40 + j) = repr (target_v_m s) j \<and>
            buf' (44 + j) = repr (target_w_m s) j \<and>
            buf' (48 + j) = repr (ye_m s) j \<and>
            buf' (52 + j) = repr (psie_m s) j \<and>
            buf' (56 + j) = repr (k_m s) j \<and>
            buf' (60 + j) = repr (bw_w_m s) j \<and>
            buf' (64 + j) = repr (bw_v_m s) j) \<and>
         (\<forall>i\<ge>68. buf' i = buf i)" if "68 \<le> buflen"
    using that by (simp add: Serialize_def Let_def memcpy_def)
  from size small big show ?thesis
    by blast
qed

text \<open>
  The state whose logged members hold 11 to 18 and whose other members are 0, written into
  a buffer filled with 255, with the stand-in representation; and a capacity of 10.
\<close>

theorem serialize_layout_witness:
  "(10::int) < 68 \<and> Serialize example_repr logged_state (\<lambda>i. 255) 10 = Inl AssertionFailed \<and>
   (68::int) \<le> 68 \<and>
   (\<exists>buf'. Serialize example_repr logged_state (\<lambda>i. 255) 68 = Inr (68, buf') \<and>
      buf' 0 = 0 \<and> buf' 36 = 11 \<and> buf' 37 = 0 \<and> buf' 40 = 12 \<and> buf' 44 = 13 \<and>
      buf' 48 = 14 \<and> buf' 52 = 15 \<and> buf' 56 = 16 \<and> buf' 60 = 17 \<and> buf' 64 = 18 \<and>
      buf' 67 = 0 \<and> buf' 68 = 255)"
proof -
  obtain buf' where b: "Serialize example_repr logged_state (\<lambda>i. 255) 68 = Inr (68, buf')"
    and l: "\<forall>j<4.
            buf' j = example_repr (x_m logged_state) j \<and>
            buf' (4 + j) = example_repr (y_m logged_state) j \<and>
            buf' (8 + j) = example_repr (theta_m logged_state) j \<and>
            buf' (12 + j) = example_repr (vf_m logged_state) j \<and>
            buf' (16 + j) = example_repr (vr_m logged_state) j \<and>
            buf' (20 + j) = example_repr (w_m logged_state) j \<and>
            buf' (24 + j) = example_repr (ierr_v_m logged_state) j \<and>
            buf' (28 + j) = example_repr (ierr_w_m logged_state) j \<and>
            buf' (32 + j) = example_repr (delta_m logged_state) j \<and>
            buf' (36 + j) = example_repr (target_k_m logged_state) j \<and>
            buf' (40 + j) = example_repr (target_v_m logged_state) j \<and>
            buf' (44 + j) = example_repr (target_w_m logged_state) j \<and>
            buf' (48 + j) = example_repr (ye_m logged_state) j \<and>
            buf' (52 + j) = example_repr (psie_m logged_state) j \<and>
            buf' (56 + j) = example_repr (k_m logged_state) j \<and>
            buf' (60 + j) = example_repr (bw_w_m logged_state) j \<and>
            buf' (64 + j) = example_repr (bw_v_m logged_state) j"
    and u: "\<forall>i\<ge>68. buf' i = 255"
    using serialize_layout [of 68 example_repr logged_state "\<lambda>i. 255", THEN conjunct2,
        THEN conjunct2]
    by auto
  have v: "buf' 0 = 0 \<and> buf' 36 = 11 \<and> buf' 40 = 12 \<and> buf' 44 = 13 \<and>
      buf' 48 = 14 \<and> buf' 52 = 15 \<and> buf' 56 = 16 \<and> buf' 60 = 17 \<and> buf' 64 = 18"
    using l [rule_format, of 0]
    by (simp add: logged_state_def rest_state_def example_repr_def)
  have w: "buf' 37 = 0"
    using l [rule_format, of 1]
    by (simp add: logged_state_def rest_state_def example_repr_def)
  have x: "buf' 67 = 0"
    using l [rule_format, of 3]
    by (simp add: logged_state_def rest_state_def example_repr_def)
  have "Serialize example_repr logged_state (\<lambda>i. 255) 10 = Inl AssertionFailed"
    using serialize_layout [of 10 example_repr logged_state "\<lambda>i. 255", THEN conjunct2,
        THEN conjunct1]
    by simp
  with b u v w x show ?thesis
    by simp
qed

end
